theory Spec2Isabelle
  imports Main
begin

section \<open>The build job\<close>

text \<open>
  The workflow \<^verbatim>\<open>.github/workflows/build-deploy.yaml\<close> has two jobs. The build job
  runs once per matrix service; its step "Set image output" appends the line
  \<^verbatim>\<open>service=sha\<close> to the file services.json, which is then uploaded as the artifact
  "matrix-result". The job has no \<^verbatim>\<open>outputs:\<close> section.
\<close>

definition build_matrix :: "string list" where
  "build_matrix =
     [''api'', ''app'', ''backend'', ''indexer-balance'', ''indexer-base'', ''indexer-events'',
      ''indexer-dex'', ''indexer-multichain'', ''explorer-selector'', ''aggregates'']"

definition newline :: char where
  "newline = CHR 0x0A"

definition set_image_output :: "string \<Rightarrow> string \<Rightarrow> string \<Rightarrow> string" where
  \<comment> \<open>\<^verbatim>\<open>echo "${{ matrix.service }}=${{ github.sha }}" >> services.json\<close>\<close>
  "set_image_output service sha services_json = services_json @ service @ ''='' @ sha @ [newline]"

definition build_outputs :: "(string \<times> string) list" where
  \<comment> \<open>the job outputs declared by the build job: none\<close>
  "build_outputs = []"

definition needs_output :: "(string \<times> string) list \<Rightarrow> string \<Rightarrow> string" where
  \<comment> \<open>\<^verbatim>\<open>${{ needs.build.outputs.<name> }}\<close>: a property that does not exist expands to the
      empty string\<close>
  "needs_output outputs name = (case map_of outputs name of None \<Rightarrow> [] | Some v \<Rightarrow> v)"

definition matrix_result :: string where
  "matrix_result = needs_output build_outputs ''matrix-result''"

section \<open>The deploy job: data\<close>

text \<open>
  The deploy job needs the build job: it runs once the build job has succeeded. Its
  scripts talk to the cluster through kubectl. A call is recorded with its arguments after
  parameter expansion: the namespace of \<^verbatim>\<open>config set-context\<close>; the deployment, the
  container and the image of \<^verbatim>\<open>set image\<close>; the deployment and the timeout in seconds of
  \<^verbatim>\<open>rollout status\<close>; the deployment of \<^verbatim>\<open>rollout undo\<close>. An event is a call with its
  exit status.
\<close>

datatype call =
    Set_context string
  | Set_image string string string
  | Rollout_status string nat
  | Rollout_undo string

type_synonym event = "call \<times> nat"

text \<open>
  Everything outside the workflow is a parameter: the exit status of the four preparatory
  steps (by step name), the result (exit status and standard output) of
  \<^verbatim>\<open>echo '<text>' | jq -r '.["<service>"]' \<close> for a text that holds something, and the exit
  status of a kubectl call, which may depend on all the calls made before it. The text is
  pasted between single quotes, so it is taken to be free of single quotes.
\<close>

record world =
  prep :: "string \<Rightarrow> nat"
  jq :: "string \<Rightarrow> string \<Rightarrow> nat \<times> string"
  kubectl :: "event list \<Rightarrow> call \<Rightarrow> nat"

text \<open>
  The state threaded through the job: the kubectl calls made so far, the lines echoed so
  far, and the shell array \<^verbatim>\<open>failed_deployments\<close> of the script that is running (the
  rollback scripts have no such array).
\<close>

record state =
  events :: "event list"
  out :: "string list"
  failed_deployments :: "string list"

definition init :: state where
  "init = \<lparr>events = [], out = [], failed_deployments = []\<rparr>"

definition fresh_shell :: "state \<Rightarrow> state" where
  \<comment> \<open>every step runs in a shell of its own, in which no array is set yet\<close>
  "fresh_shell st = st\<lparr>failed_deployments := []\<rparr>"

definition echo :: "string \<Rightarrow> state \<Rightarrow> state" where
  "echo line st = st\<lparr>out := out st @ [line]\<rparr>"

definition run_kubectl :: "world \<Rightarrow> call \<Rightarrow> state \<Rightarrow> nat \<times> state" where
  "run_kubectl w c st =
     (let rc = kubectl w (events st) c in (rc, st\<lparr>events := events st @ [(c, rc)]\<rparr>))"

section \<open>Reading a service's image identifier\<close>

definition blank :: "string \<Rightarrow> bool" where
  "blank text = list_all (\<lambda>c. c = CHR '' '' \<or> c = CHR 0x09 \<or> c = CHR 0x0A \<or> c = CHR 0x0D) text"

definition strip_newlines :: "string \<Rightarrow> string" where
  \<comment> \<open>command substitution drops the trailing newlines of the captured output\<close>
  "strip_newlines s = rev (dropWhile (\<lambda>c. c = newline) (rev s))"

definition service_sha :: "world \<Rightarrow> string \<Rightarrow> string \<Rightarrow> nat \<times> string" where
  \<comment> \<open>\<^verbatim>\<open>service_sha=$(echo '<text>' | jq -r '.["$service"]')\<close>: on an input without any JSON
      value jq prints nothing and exits with 0\<close>
  "service_sha w text service =
     (if blank text then (0, [])
      else (case jq w text service of (rc, stdout) \<Rightarrow> (rc, strip_newlines stdout)))"

definition valid_sha :: "string \<Rightarrow> string \<Rightarrow> bool" where
  \<comment> \<open>\<^verbatim>\<open>[[ -n "$service" && -n "$service_sha" && "$service_sha" != "false" && "$service_sha" != "null" ]]\<close>\<close>
  "valid_sha service sha \<longleftrightarrow> service \<noteq> [] \<and> sha \<noteq> [] \<and> sha \<noteq> ''false'' \<and> sha \<noteq> ''null''"

definition rollback_sha :: "string \<Rightarrow> bool" where
  \<comment> \<open>\<^verbatim>\<open>[[ "$service_sha" != "false" && "$service_sha" != "null" ]]\<close>\<close>
  "rollback_sha sha \<longleftrightarrow> sha \<noteq> ''false'' \<and> sha \<noteq> ''null''"

section \<open>Deploy and verify\<close>

text \<open>
  The scripts run under \<^verbatim>\<open>bash -e\<close>: a command that fails outside a condition ends the
  script with its exit status. \<open>Inl (rc, st)\<close> is the script ended with status \<open>rc\<close>,
  \<open>Inr st\<close> is the script going on.
\<close>

definition deployment_of :: "string \<Rightarrow> string \<Rightarrow> string" where
  "deployment_of env service = env @ ''-'' @ service"

definition image_of :: "string \<Rightarrow> string \<Rightarrow> string" where
  "image_of service sha = ''ghcr.io/nearblocks/'' @ service @ '':'' @ sha"

definition updating_line :: "string \<Rightarrow> string \<Rightarrow> string" where
  "updating_line deployment_name image_name =
     ''Updating deployment for '' @ deployment_name @ '' with image: '' @ image_name"

definition skipping_line :: "string \<Rightarrow> string \<Rightarrow> string" where
  "skipping_line env service =
     ''Skipping deployment for '' @ env @ ''-'' @ service @ '' (no updates or invalid SHA)''"

definition deploy_service ::
  "world \<Rightarrow> string \<Rightarrow> string \<Rightarrow> string \<Rightarrow> state \<Rightarrow> (nat \<times> state) + state" where
  \<comment> \<open>the body of the \<^verbatim>\<open>for\<close> loop of "Deploy and verify testnet" (lines 102 to 119) and of
      "Deploy and verify mainnet" (lines 155 to 174)\<close>
  "deploy_service w text env service st =
     (case service_sha w text service of (rc, sha) \<Rightarrow>
        if rc \<noteq> 0 then Inl (rc, st)
        else if valid_sha service sha then
          (let deployment_name = deployment_of env service;
               image_name = image_of service sha;
               st1 = echo (updating_line deployment_name image_name) st
           in case run_kubectl w (Set_image deployment_name service image_name) st1 of (rc1, st2) \<Rightarrow>
                if rc1 \<noteq> 0 then Inl (rc1, st2)
                else
                  (let st3 = echo (''Verifying rollout for '' @ deployment_name) st2
                   in case run_kubectl w (Rollout_status deployment_name 600) st3 of (rc2, st4) \<Rightarrow>
                        if rc2 \<noteq> 0
                        then Inr ((echo (''Rollout failed for '' @ deployment_name) st4)
                                    \<lparr>failed_deployments := failed_deployments st4 @ [deployment_name]\<rparr>)
                        else Inr st4))
        else Inr (echo (skipping_line env service) st))"

fun deploy_loop ::
  "world \<Rightarrow> string \<Rightarrow> string \<Rightarrow> string list \<Rightarrow> state \<Rightarrow> (nat \<times> state) + state" where
  "deploy_loop w text env [] st = Inr st"
| "deploy_loop w text env (service # services) st =
     (case deploy_service w text env service st of
        Inl e \<Rightarrow> Inl e
      | Inr st' \<Rightarrow> deploy_loop w text env services st')"

definition deploy_and_verify ::
  "world \<Rightarrow> string \<Rightarrow> string \<Rightarrow> string \<Rightarrow> string list \<Rightarrow> state \<Rightarrow> nat \<times> state" where
  \<comment> \<open>the script of a deploy step (lines 95 to 126, and 148 to 181): select the namespace,
      empty the array, loop, and exit with 1 when the array is not empty\<close>
  "deploy_and_verify w text namespace env services st =
     (case run_kubectl w (Set_context namespace) (fresh_shell st) of (rc, st1) \<Rightarrow>
        if rc \<noteq> 0 then (rc, st1)
        else
          (case deploy_loop w text env services (st1\<lparr>failed_deployments := []\<rparr>) of
             Inl e \<Rightarrow> e
           | Inr st2 \<Rightarrow>
               if length (failed_deployments st2) \<noteq> 0
               then (1, st2\<lparr>out := out st2 @ ''The following deployments failed:''
                                    # failed_deployments st2\<rparr>)
               else (0, st2)))"

definition testnet_services :: "string list" where
  "testnet_services =
     [''api'', ''app'', ''backend'', ''indexer-balance'', ''indexer-base'', ''indexer-events'',
      ''explorer-selector'', ''aggregates'']"

definition mainnet_services :: "string list" where
  "mainnet_services =
     [''api'', ''app'', ''backend'', ''indexer-balance'', ''indexer-base'', ''indexer-events'',
      ''indexer-dex'', ''indexer-multichain'', ''explorer-selector'', ''aggregates'']"

definition deploy_testnet :: "world \<Rightarrow> string \<Rightarrow> state \<Rightarrow> nat \<times> state" where
  "deploy_testnet w text =
     deploy_and_verify w text ''nearblocks-testnet'' ''testnet'' testnet_services"

definition deploy_mainnet :: "world \<Rightarrow> string \<Rightarrow> state \<Rightarrow> nat \<times> state" where
  "deploy_mainnet w text =
     deploy_and_verify w text ''nearblocks'' ''mainnet'' mainnet_services"

section \<open>Rollback\<close>

definition attempting_line :: "string \<Rightarrow> string" where
  "attempting_line deployment_name = ''Attempting rollback for '' @ deployment_name"

definition rollback_service ::
  "world \<Rightarrow> string \<Rightarrow> string \<Rightarrow> string \<Rightarrow> state \<Rightarrow> (nat \<times> state) + state" where
  \<comment> \<open>the body of the \<^verbatim>\<open>for\<close> loop of the two rollback steps (lines 137 to 143, and 192
      to 199)\<close>
  "rollback_service w text env service st =
     (case service_sha w text service of (rc, sha) \<Rightarrow>
        if rc \<noteq> 0 then Inl (rc, st)
        else if rollback_sha sha then
          (let deployment_name = deployment_of env service;
               st1 = echo (attempting_line deployment_name) st
           in case run_kubectl w (Rollout_undo deployment_name) st1 of (rc1, st2) \<Rightarrow>
                if rc1 \<noteq> 0 then Inl (rc1, st2) else Inr st2)
        else Inr st)"

fun rollback_loop ::
  "world \<Rightarrow> string \<Rightarrow> string \<Rightarrow> string list \<Rightarrow> state \<Rightarrow> (nat \<times> state) + state" where
  "rollback_loop w text env [] st = Inr st"
| "rollback_loop w text env (service # services) st =
     (case rollback_service w text env service st of
        Inl e \<Rightarrow> Inl e
      | Inr st' \<Rightarrow> rollback_loop w text env services st')"

definition rollback ::
  "world \<Rightarrow> string \<Rightarrow> string \<Rightarrow> string \<Rightarrow> string list \<Rightarrow> state \<Rightarrow> nat \<times> state" where
  \<comment> \<open>the script of a rollback step (lines 131 to 144, and 186 to 200)\<close>
  "rollback w text namespace env services st =
     (case run_kubectl w (Set_context namespace) (fresh_shell st) of (rc, st1) \<Rightarrow>
        if rc \<noteq> 0 then (rc, st1)
        else
          (case rollback_loop w text env services st1 of
             Inl e \<Rightarrow> e
           | Inr st2 \<Rightarrow> (0, st2)))"

definition rollback_testnet :: "world \<Rightarrow> string \<Rightarrow> state \<Rightarrow> nat \<times> state" where
  "rollback_testnet w text = rollback w text ''nearblocks-testnet'' ''testnet'' testnet_services"

definition rollback_mainnet :: "world \<Rightarrow> string \<Rightarrow> state \<Rightarrow> nat \<times> state" where
  "rollback_mainnet w text = rollback w text ''nearblocks'' ''mainnet'' mainnet_services"

section \<open>The steps of the deploy job\<close>

text \<open>
  A step without an \<^verbatim>\<open>if:\<close> runs when no earlier step of the job has failed
  (\<^verbatim>\<open>success()\<close>); a step with \<^verbatim>\<open>if: failure()\<close> runs when an earlier step has failed.
  A step that exits with a status other than 0 has failed.
\<close>

datatype cond = If_success | If_failure

datatype outcome = Skipped | Succeeded | Failed nat

type_synonym step = "string \<times> cond \<times> (state \<Rightarrow> nat \<times> state)"

fun run_steps :: "step list \<Rightarrow> bool \<Rightarrow> state \<Rightarrow> (string \<times> outcome) list \<times> state" where
  "run_steps [] failed st = ([], st)"
| "run_steps ((name, c, script) # steps) failed st =
     (if (c = If_failure) = failed
      then (case script st of (rc, st1) \<Rightarrow>
              (case run_steps steps (failed \<or> rc \<noteq> 0) st1 of (os, st2) \<Rightarrow>
                 ((name, if rc = 0 then Succeeded else Failed rc) # os, st2)))
      else (case run_steps steps failed st of (os, st2) \<Rightarrow> ((name, Skipped) # os, st2)))"

definition external_step :: "world \<Rightarrow> string \<Rightarrow> state \<Rightarrow> nat \<times> state" where
  "external_step w name st = (prep w name, st)"

definition notify :: "state \<Rightarrow> nat \<times> state" where
  "notify st =
     (0, echo ''Deployment failed. Manual intervention may be required.'' (fresh_shell st))"

definition deploy_steps :: "world \<Rightarrow> string \<Rightarrow> step list" where
  \<comment> \<open>the steps of the deploy job (lines 73 to 205), each with its name, its condition and
      what it runs\<close>
  "deploy_steps w text =
     [(''Checkout code'', If_success, external_step w ''Checkout code''),
      (''Download Matrix Result Artifact'', If_success,
         external_step w ''Download Matrix Result Artifact''),
      (''Set up kubectl'', If_success, external_step w ''Set up kubectl''),
      (''Configure kubectl'', If_success, external_step w ''Configure kubectl''),
      (''Deploy and verify testnet'', If_success, deploy_testnet w text),
      (''Rollback failed testnet deployments'', If_failure, rollback_testnet w text),
      (''Deploy and verify mainnet'', If_success, deploy_mainnet w text),
      (''Rollback failed mainnet deployments'', If_failure, rollback_mainnet w text),
      (''Notify on failure'', If_failure, notify)]"

definition deploy_job :: "world \<Rightarrow> string \<Rightarrow> (string \<times> outcome) list \<times> state" where
  "deploy_job w text = run_steps (deploy_steps w text) False init"

definition outcome_of :: "string \<Rightarrow> (string \<times> outcome) list \<times> state \<Rightarrow> outcome" where
  "outcome_of name result = (case map_of (fst result) name of None \<Rightarrow> Skipped | Some oc \<Rightarrow> oc)"

fun is_failed :: "outcome \<Rightarrow> bool" where
  "is_failed (Failed rc) = True"
| "is_failed _ = False"

definition job_succeeded :: "(string \<times> outcome) list \<times> state \<Rightarrow> bool" where
  \<comment> \<open>the job, and with it the workflow run, concludes with success when no step failed\<close>
  "job_succeeded result \<longleftrightarrow> \<not> list_ex (\<lambda>(name, oc). is_failed oc) (fst result)"

section \<open>Observing a run\<close>

text \<open>
  The state in which a piece of script stops, whether it has ended the script or not; the
  events that a piece of script adds; the calls that concern one deployment; the
  deployments whose rollout status call reported a failure.
\<close>

fun final :: "(nat \<times> state) + state \<Rightarrow> state" where
  "final (Inl (rc, st)) = st"
| "final (Inr st) = st"

definition new_events :: "state \<Rightarrow> state \<Rightarrow> event list" where
  "new_events st st' = drop (length (events st)) (events st')"

fun about :: "string \<Rightarrow> call \<Rightarrow> bool" where
  "about d (Set_context namespace) = False"
| "about d (Set_image d' service image_name) = (d' = d)"
| "about d (Rollout_status d' timeout) = (d' = d)"
| "about d (Rollout_undo d') = (d' = d)"

fun is_wait :: "call \<Rightarrow> bool" where
  "is_wait (Rollout_status d timeout) = True"
| "is_wait c = False"

fun timed_out :: "event list \<Rightarrow> string list" where
  "timed_out [] = []"
| "timed_out ((Rollout_status d timeout, rc) # evs) =
     (if rc \<noteq> 0 then d # timed_out evs else timed_out evs)"
| "timed_out (e # evs) = timed_out evs"

text \<open>
  The calls of a deploy loop, and of a rollback loop, in which no command ends the script:
  an update and a wait for each service that passes the test of the deploy loop, an undo
  for each service that passes the test of the rollback loop.
\<close>

definition deploy_calls :: "world \<Rightarrow> string \<Rightarrow> string \<Rightarrow> string list \<Rightarrow> call list" where
  "deploy_calls w text env services =
     concat (map (\<lambda>s. [Set_image (deployment_of env s) s (image_of s (snd (service_sha w text s))),
                         Rollout_status (deployment_of env s) 600])
               (filter (\<lambda>s. valid_sha s (snd (service_sha w text s))) services))"

definition rollback_calls :: "world \<Rightarrow> string \<Rightarrow> string \<Rightarrow> string list \<Rightarrow> call list" where
  "rollback_calls w text env services =
     map (\<lambda>s. Rollout_undo (deployment_of env s))
       (filter (\<lambda>s. rollback_sha (snd (service_sha w text s))) services)"

section \<open>Scenarios\<close>

text \<open>
  The scenario of the specification: the build result holds an image for api and backend,
  \<open>false\<close> for app and nothing for the other services, for which jq prints \<open>null\<close>.
\<close>

definition scenario_text :: string where
  \<open>scenario_text = ''{"api":"sha1","app":false,"backend":"sha2"}''\<close>

definition scenario_jq :: "string \<Rightarrow> string \<Rightarrow> nat \<times> string" where
  "scenario_jq text service =
     (if service = ''api'' then (0, ''sha1'' @ [newline])
      else if service = ''app'' then (0, ''false'' @ [newline])
      else if service = ''backend'' then (0, ''sha2'' @ [newline])
      else (0, ''null'' @ [newline]))"

definition calm :: world where
  \<comment> \<open>every preparatory step and every kubectl call succeeds\<close>
  "calm = \<lparr>prep = (\<lambda>name. 0), jq = scenario_jq, kubectl = (\<lambda>history c. 0)\<rparr>"

definition backend_times_out :: world where
  \<comment> \<open>the rollout of testnet-backend does not converge within the timeout\<close>
  "backend_times_out =
     calm\<lparr>kubectl := (\<lambda>history c. if c = Rollout_status ''testnet-backend'' 600 then 1 else 0)\<rparr>"

definition api_update_fails :: world where
  \<comment> \<open>\<^verbatim>\<open>kubectl set image\<close> fails for testnet-api\<close>
  "api_update_fails =
     calm\<lparr>kubectl := (\<lambda>history c.
        if c = Set_image ''testnet-api'' ''api'' ''ghcr.io/nearblocks/api:sha1'' then 1 else 0)\<rparr>"

definition api_undo_fails :: world where
  \<comment> \<open>\<^verbatim>\<open>kubectl rollout undo\<close> fails for testnet-api\<close>
  "api_undo_fails =
     calm\<lparr>kubectl := (\<lambda>history c. if c = Rollout_undo ''testnet-api'' then 1 else 0)\<rparr>"

definition mainnet_api_update_fails :: world where
  \<comment> \<open>\<^verbatim>\<open>kubectl set image\<close> fails for mainnet-api\<close>
  "mainnet_api_update_fails =
     calm\<lparr>kubectl := (\<lambda>history c.
        if c = Set_image ''mainnet-api'' ''api'' ''ghcr.io/nearblocks/api:sha1'' then 1 else 0)\<rparr>"

definition mainnet_context_fails :: world where
  \<comment> \<open>\<^verbatim>\<open>kubectl config set-context\<close> fails for the namespace of mainnet\<close>
  "mainnet_context_fails =
     calm\<lparr>kubectl := (\<lambda>history c. if c = Set_context ''nearblocks'' then 1 else 0)\<rparr>"

section \<open>Auxiliary facts\<close>

lemma blank_matrix_result: "blank matrix_result"
  by (simp add: matrix_result_def needs_output_def build_outputs_def blank_def)

lemma service_sha_blank: "blank mr \<Longrightarrow> service_sha w mr s = (0, [])"
  by (simp add: service_sha_def)

lemma deployment_of_inj: "deployment_of env s = deployment_of env s' \<longleftrightarrow> s = s'"
  by (simp add: deployment_of_def)

lemma about_unique: "about d c \<Longrightarrow> about d' c \<Longrightarrow> d = d'"
  by (cases c) simp_all

lemma timed_out_append: "timed_out (xs @ ys) = timed_out xs @ timed_out ys"
  by (induction xs rule: timed_out.induct) simp_all

lemma new_events_append [simp]: "events st' = events st @ evs \<Longrightarrow> new_events st st' = evs"
  by (simp add: new_events_def)

lemma init_simps [simp]: "events init = []" "out init = []" "failed_deployments init = []"
  by (simp_all add: init_def)

lemma deploy_loop_append:
  "deploy_loop w mr env (xs @ ys) st =
     (case deploy_loop w mr env xs st of Inl e \<Rightarrow> Inl e | Inr st' \<Rightarrow> deploy_loop w mr env ys st')"
  by (induction xs arbitrary: st) (auto split: sum.splits)

lemma rollback_loop_append:
  "rollback_loop w mr env (xs @ ys) st =
     (case rollback_loop w mr env xs st of Inl e \<Rightarrow> Inl e | Inr st' \<Rightarrow> rollback_loop w mr env ys st')"
  by (induction xs arbitrary: st) (auto split: sum.splits)

subsection \<open>One turn of the deploy loop\<close>

lemma deploy_service_skip:
  "service_sha w mr s = (0, sha) \<Longrightarrow> \<not> valid_sha s sha \<Longrightarrow>
   deploy_service w mr env s st = Inr (echo (skipping_line env s) st)"
  by (simp add: deploy_service_def)

lemma deploy_service_update_fails:
  "service_sha w mr s = (0, sha) \<Longrightarrow> valid_sha s sha \<Longrightarrow>
   kubectl w (events st) (Set_image (deployment_of env s) s (image_of s sha)) = rc \<Longrightarrow> rc \<noteq> 0 \<Longrightarrow>
   deploy_service w mr env s st =
     Inl (rc, (echo (updating_line (deployment_of env s) (image_of s sha)) st)
               \<lparr>events := events st @ [(Set_image (deployment_of env s) s (image_of s sha), rc)]\<rparr>)"
  by (simp add: deploy_service_def run_kubectl_def echo_def Let_def)

lemma deploy_service_update_succeeds:
  "service_sha w mr s = (0, sha) \<Longrightarrow> valid_sha s sha \<Longrightarrow>
   kubectl w (events st) (Set_image (deployment_of env s) s (image_of s sha)) = 0 \<Longrightarrow>
   \<exists>st' rc. deploy_service w mr env s st = Inr st' \<and>
     events st' = events st @ [(Set_image (deployment_of env s) s (image_of s sha), 0),
                               (Rollout_status (deployment_of env s) 600, rc)]"
  by (simp add: deploy_service_def run_kubectl_def echo_def Let_def)

lemma deploy_service_Inr:
  assumes "deploy_service w mr env s st = Inr st'"
  shows "\<exists>evs. events st' = events st @ evs \<and> map fst evs = deploy_calls w mr env [s] \<and>
           failed_deployments st' = failed_deployments st @ timed_out evs"
  using assms
  by (cases "service_sha w mr s")
     (auto simp add: deploy_service_def run_kubectl_def echo_def Let_def deploy_calls_def
           split: if_splits)

lemma deploy_service_Inl:
  assumes "deploy_service w mr env s st = Inl (rc, st')"
  shows "fst (service_sha w mr s) \<noteq> 0 \<or>
         (\<exists>c. events st' = events st @ [(c, rc)] \<and> \<not> is_wait c \<and> rc \<noteq> 0)"
  using assms
  by (cases "service_sha w mr s")
     (auto simp add: deploy_service_def run_kubectl_def echo_def Let_def split: if_splits)

lemma deploy_service_Inl_status:
  "deploy_service w mr env s st = Inl (rc, st') \<Longrightarrow> rc \<noteq> 0"
  by (cases "service_sha w mr s")
     (auto simp add: deploy_service_def run_kubectl_def echo_def Let_def split: if_splits)

lemma deploy_service_touches:
  assumes "st' = final (deploy_service w mr env s st)"
  shows "\<exists>evs fs. events st' = events st @ evs \<and>
           failed_deployments st' = failed_deployments st @ fs \<and>
           (\<forall>e\<in>set evs. fst (service_sha w mr s) = 0 \<and> valid_sha s (snd (service_sha w mr s)) \<and>
                          about (deployment_of env s) (fst e)) \<and>
           (\<forall>d\<in>set fs. fst (service_sha w mr s) = 0 \<and> valid_sha s (snd (service_sha w mr s)) \<and>
                         d = deployment_of env s)"
  using assms
  by (cases "service_sha w mr s")
     (auto simp add: deploy_service_def run_kubectl_def echo_def Let_def)

subsection \<open>The deploy loop and the deploy script\<close>

lemma deploy_loop_blank:
  "blank mr \<Longrightarrow> deploy_loop w mr env services st =
     Inr (st\<lparr>out := out st @ map (skipping_line env) services\<rparr>)"
proof (induction services arbitrary: st)
  case Nil
  then show ?case by simp
next
  case (Cons s services)
  have "deploy_service w mr env s st = Inr (echo (skipping_line env s) st)"
    using Cons.prems
    by (intro deploy_service_skip [where sha = "[]"]) (simp_all add: service_sha_blank valid_sha_def)
  with Cons show ?case by (simp add: echo_def)
qed

lemma deploy_loop_Inr:
  assumes "deploy_loop w mr env services st = Inr st'"
  shows "\<exists>evs. events st' = events st @ evs \<and> map fst evs = deploy_calls w mr env services \<and>
           failed_deployments st' = failed_deployments st @ timed_out evs"
  using assms
proof (induction services arbitrary: st)
  case Nil
  then show ?case by (simp add: deploy_calls_def)
next
  case (Cons s services)
  then obtain st1 where one: "deploy_service w mr env s st = Inr st1"
    and rest: "deploy_loop w mr env services st1 = Inr st'"
    by (auto split: sum.splits)
  from deploy_service_Inr [OF one]
  obtain evs1 where 1: "events st1 = events st @ evs1" "map fst evs1 = deploy_calls w mr env [s]"
    "failed_deployments st1 = failed_deployments st @ timed_out evs1"
    by blast
  from Cons.IH [OF rest]
  obtain evs2 where 2: "events st' = events st1 @ evs2"
    "map fst evs2 = deploy_calls w mr env services"
    "failed_deployments st' = failed_deployments st1 @ timed_out evs2"
    by blast
  have "events st' = events st @ (evs1 @ evs2)"
    using 1(1) 2(1) by simp
  moreover have "map fst (evs1 @ evs2) = deploy_calls w mr env (s # services)"
    using 1(2) 2(2) by (simp add: deploy_calls_def)
  moreover have "failed_deployments st' = failed_deployments st @ timed_out (evs1 @ evs2)"
    using 1(3) 2(3) by (simp add: timed_out_append)
  ultimately show ?case by (intro exI [of _ "evs1 @ evs2"] conjI)
qed

lemma deploy_loop_Inl:
  assumes "deploy_loop w mr env services st = Inl (rc, st')"
  shows "(\<exists>s\<in>set services. fst (service_sha w mr s) \<noteq> 0) \<or>
         (\<exists>evs c. events st' = events st @ evs @ [(c, rc)] \<and> \<not> is_wait c \<and> rc \<noteq> 0)"
  using assms
proof (induction services arbitrary: st)
  case Nil
  then show ?case by simp
next
  case (Cons s services)
  show ?case
  proof (cases "deploy_service w mr env s st")
    case (Inl e)
    then have "deploy_service w mr env s st = Inl (rc, st')"
      using Cons.prems by simp
    from deploy_service_Inl [OF this] show ?thesis
      by (auto intro: exI [of _ "[]"])
  next
    case (Inr st1)
    then have rest: "deploy_loop w mr env services st1 = Inl (rc, st')"
      using Cons.prems by simp
    from deploy_service_Inr [OF Inr] obtain evs1 where 1: "events st1 = events st @ evs1"
      by blast
    from Cons.IH [OF rest] show ?thesis
    proof
      assume "\<exists>s\<in>set services. fst (service_sha w mr s) \<noteq> 0"
      then show ?thesis by auto
    next
      assume "\<exists>evs c. events st' = events st1 @ evs @ [(c, rc)] \<and> \<not> is_wait c \<and> rc \<noteq> 0"
      then obtain evs c where "events st' = events st1 @ evs @ [(c, rc)]" "\<not> is_wait c" "rc \<noteq> 0"
        by blast
      then have "events st' = events st @ (evs1 @ evs) @ [(c, rc)] \<and> \<not> is_wait c \<and> rc \<noteq> 0"
        using 1 by simp
      then show ?thesis by blast
    qed
  qed
qed

lemma deploy_loop_Inl_status:
  "deploy_loop w mr env services st = Inl (rc, st') \<Longrightarrow> rc \<noteq> 0"
  by (induction services arbitrary: st) (auto split: sum.splits dest: deploy_service_Inl_status)

lemma deploy_loop_touches:
  assumes "st' = final (deploy_loop w mr env services st)"
  shows "\<exists>evs fs. events st' = events st @ evs \<and>
           failed_deployments st' = failed_deployments st @ fs \<and>
           (\<forall>e\<in>set evs. \<exists>s\<in>set services. fst (service_sha w mr s) = 0 \<and>
              valid_sha s (snd (service_sha w mr s)) \<and> about (deployment_of env s) (fst e)) \<and>
           (\<forall>d\<in>set fs. \<exists>s\<in>set services. fst (service_sha w mr s) = 0 \<and>
              valid_sha s (snd (service_sha w mr s)) \<and> d = deployment_of env s)"
  using assms
proof (induction services arbitrary: st)
  case Nil
  then show ?case by simp
next
  case (Cons s services)
  obtain evs1 fs1 where one:
    "events (final (deploy_service w mr env s st)) = events st @ evs1"
    "failed_deployments (final (deploy_service w mr env s st)) = failed_deployments st @ fs1"
    "\<forall>e\<in>set evs1. fst (service_sha w mr s) = 0 \<and> valid_sha s (snd (service_sha w mr s)) \<and>
        about (deployment_of env s) (fst e)"
    "\<forall>d\<in>set fs1. fst (service_sha w mr s) = 0 \<and> valid_sha s (snd (service_sha w mr s)) \<and>
        d = deployment_of env s"
    using deploy_service_touches [OF refl, of w mr env s st] by blast
  show ?case
  proof (cases "deploy_service w mr env s st")
    case (Inl e)
    then have "st' = final (deploy_service w mr env s st)"
      using Cons.prems by simp
    with one show ?thesis by (intro exI [of _ evs1] exI [of _ fs1]) simp
  next
    case (Inr st1)
    then have "st' = final (deploy_loop w mr env services st1)"
      using Cons.prems by simp
    from Cons.IH [OF this]
    obtain evs2 fs2 where rest:
      "events st' = events st1 @ evs2" "failed_deployments st' = failed_deployments st1 @ fs2"
      "\<forall>e\<in>set evs2. \<exists>s\<in>set services. fst (service_sha w mr s) = 0 \<and>
          valid_sha s (snd (service_sha w mr s)) \<and> about (deployment_of env s) (fst e)"
      "\<forall>d\<in>set fs2. \<exists>s\<in>set services. fst (service_sha w mr s) = 0 \<and>
          valid_sha s (snd (service_sha w mr s)) \<and> d = deployment_of env s"
      by blast
    from one Inr rest show ?thesis
      by (intro exI [of _ "evs1 @ evs2"] exI [of _ "fs1 @ fs2"]) auto
  qed
qed

lemma untouched:
  assumes "\<forall>e\<in>set evs. \<exists>s'\<in>set services. fst (service_sha w mr s') = 0 \<and>
             valid_sha s' (snd (service_sha w mr s')) \<and> about (deployment_of env s') (fst e)"
    and "s \<notin> set services \<or> \<not> (fst (service_sha w mr s) = 0 \<and> valid_sha s (snd (service_sha w mr s)))"
  shows "filter (about (deployment_of env s)) (map fst evs) = []"
proof -
  have "\<not> about (deployment_of env s) (fst e)" if "e \<in> set evs" for e
  proof
    assume a: "about (deployment_of env s) (fst e)"
    from assms(1) that obtain s' where s': "s' \<in> set services" "fst (service_sha w mr s') = 0"
      "valid_sha s' (snd (service_sha w mr s'))" "about (deployment_of env s') (fst e)"
      by blast
    from about_unique [OF a s'(4)] have "s = s'" by (simp add: deployment_of_inj)
    with s' assms(2) show False by simp
  qed
  then show ?thesis by (simp add: filter_empty_conv)
qed

lemma deploy_and_verify_success:
  "fst (deploy_and_verify w mr namespace env services st) = 0 \<Longrightarrow>
   failed_deployments (snd (deploy_and_verify w mr namespace env services st)) = []"
  by (auto simp add: deploy_and_verify_def run_kubectl_def Let_def fresh_shell_def
        dest: deploy_loop_Inl_status split: sum.splits if_splits)

lemma deploy_and_verify_status:
  assumes lookups: "\<forall>s\<in>set services. fst (service_sha w mr s) = 0"
    and run: "deploy_and_verify w mr namespace env services st = (rc, st')"
    and others: "\<forall>e\<in>set (new_events st st'). \<not> is_wait (fst e) \<longrightarrow> snd e = 0"
  shows "rc \<noteq> 0 \<longleftrightarrow> failed_deployments st' \<noteq> []"
proof -
  define rc0 where "rc0 = kubectl w (events st) (Set_context namespace)"
  define st1 where "st1 = st\<lparr>events := events st @ [(Set_context namespace, rc0)],
                             failed_deployments := []\<rparr>"
  have ctx: "run_kubectl w (Set_context namespace) (fresh_shell st) = (rc0, st1)"
    by (simp add: run_kubectl_def fresh_shell_def rc0_def st1_def Let_def)
  have rc0: "rc0 = 0"
  proof (rule ccontr)
    assume "rc0 \<noteq> 0"
    with run ctx have "st' = st1" by (simp add: deploy_and_verify_def)
    then have "new_events st st' = [(Set_context namespace, rc0)]"
      by (simp add: st1_def new_events_def)
    with others \<open>rc0 \<noteq> 0\<close> show False by simp
  qed
  show ?thesis
  proof (cases "deploy_loop w mr env services (st1\<lparr>failed_deployments := []\<rparr>)")
    case (Inl e)
    with run ctx rc0 have e: "e = (rc, st')"
      by (simp add: deploy_and_verify_def)
    from deploy_loop_Inl [OF Inl [unfolded e]] lookups
    obtain evs c where stop: "events st' = events st1 @ evs @ [(c, rc)]" "\<not> is_wait c" "rc \<noteq> 0"
      by auto
    then have "new_events st st' = (Set_context namespace, rc0) # evs @ [(c, rc)]"
      by (simp add: st1_def new_events_def)
    with others stop show ?thesis by simp
  next
    case (Inr st2)
    with run ctx rc0 show ?thesis
      by (auto simp add: deploy_and_verify_def split: if_splits)
  qed
qed

subsection \<open>The rollback loop\<close>

lemma rollback_service_Inr:
  assumes "rollback_service w mr env s st = Inr st'"
  shows "events st' = events st @ map (\<lambda>c. (c, 0)) (rollback_calls w mr env [s])"
  using assms
  by (cases "service_sha w mr s")
     (auto simp add: rollback_service_def run_kubectl_def echo_def Let_def rollback_calls_def
           split: if_splits)

lemma rollback_loop_Inr:
  assumes "rollback_loop w mr env services st = Inr st'"
  shows "events st' = events st @ map (\<lambda>c. (c, 0)) (rollback_calls w mr env services)"
  using assms
proof (induction services arbitrary: st)
  case Nil
  then show ?case by (simp add: rollback_calls_def)
next
  case (Cons s services)
  then obtain st1 where one: "rollback_service w mr env s st = Inr st1"
    and rest: "rollback_loop w mr env services st1 = Inr st'"
    by (auto split: sum.splits)
  from rollback_service_Inr [OF one] Cons.IH [OF rest] show ?case
    by (simp add: rollback_calls_def)
qed

lemma rollback_service_undo_fails:
  "service_sha w mr s = (0, sha) \<Longrightarrow> rollback_sha sha \<Longrightarrow>
   kubectl w (events st) (Rollout_undo (deployment_of env s)) = rc \<Longrightarrow> rc \<noteq> 0 \<Longrightarrow>
   rollback_service w mr env s st =
     Inl (rc, (echo (attempting_line (deployment_of env s)) st)
               \<lparr>events := events st @ [(Rollout_undo (deployment_of env s), rc)]\<rparr>)"
  by (simp add: rollback_service_def run_kubectl_def echo_def Let_def)

subsection \<open>The steps of the job\<close>

lemma fst_run_steps_Cons:
  "fst (run_steps ((name, c, script) # steps) failed st) =
     (if (c = If_failure) = failed
      then (name, if fst (script st) = 0 then Succeeded else Failed (fst (script st)))
             # fst (run_steps steps (failed \<or> fst (script st) \<noteq> 0) (snd (script st)))
      else (name, Skipped) # fst (run_steps steps failed st))"
  by (simp add: case_prod_beta)

lemma snd_run_steps_Cons:
  "snd (run_steps ((name, c, script) # steps) failed st) =
     (if (c = If_failure) = failed
      then snd (run_steps steps (failed \<or> fst (script st) \<noteq> 0) (snd (script st)))
      else snd (run_steps steps failed st))"
  by (simp add: case_prod_beta)

lemmas job_simps = deploy_job_def deploy_steps_def outcome_of_def external_step_def
  fst_run_steps_Cons job_succeeded_def

lemma job_cases:
  obtains (checkout) "prep w ''Checkout code'' \<noteq> 0"
  | (download) "prep w ''Checkout code'' = 0" "prep w ''Download Matrix Result Artifact'' \<noteq> 0"
  | (kubectl) "prep w ''Checkout code'' = 0" "prep w ''Download Matrix Result Artifact'' = 0"
      "prep w ''Set up kubectl'' \<noteq> 0"
  | (configure) "prep w ''Checkout code'' = 0" "prep w ''Download Matrix Result Artifact'' = 0"
      "prep w ''Set up kubectl'' = 0" "prep w ''Configure kubectl'' \<noteq> 0"
  | (testnet) "prep w ''Checkout code'' = 0" "prep w ''Download Matrix Result Artifact'' = 0"
      "prep w ''Set up kubectl'' = 0" "prep w ''Configure kubectl'' = 0"
      "fst (deploy_testnet w mr init) \<noteq> 0"
  | (mainnet) "prep w ''Checkout code'' = 0" "prep w ''Download Matrix Result Artifact'' = 0"
      "prep w ''Set up kubectl'' = 0" "prep w ''Configure kubectl'' = 0"
      "fst (deploy_testnet w mr init) = 0"
      "fst (deploy_mainnet w mr (snd (deploy_testnet w mr init))) \<noteq> 0"
  | (success) "prep w ''Checkout code'' = 0" "prep w ''Download Matrix Result Artifact'' = 0"
      "prep w ''Set up kubectl'' = 0" "prep w ''Configure kubectl'' = 0"
      "fst (deploy_testnet w mr init) = 0"
      "fst (deploy_mainnet w mr (snd (deploy_testnet w mr init))) = 0"
  by blast

lemma job_succeeded_iff_status:
  assumes "prep w ''Checkout code'' = 0" "prep w ''Download Matrix Result Artifact'' = 0"
    "prep w ''Set up kubectl'' = 0" "prep w ''Configure kubectl'' = 0"
  shows "job_succeeded (deploy_job w mr) \<longleftrightarrow>
           fst (deploy_testnet w mr init) = 0 \<and>
           fst (deploy_mainnet w mr (snd (deploy_testnet w mr init))) = 0"
  using assms
  by (cases rule: job_cases [where w = w and mr = mr])
     (simp_all add: job_simps del: run_steps.simps(2))

lemma guarded_job_succeeds_iff_failed_sets_empty:
  assumes preps: "prep w ''Checkout code'' = 0" "prep w ''Download Matrix Result Artifact'' = 0"
      "prep w ''Set up kubectl'' = 0" "prep w ''Configure kubectl'' = 0"
    and lookups: "\<forall>s\<in>set mainnet_services. fst (service_sha w mr s) = 0"
    and testnet: "\<forall>e\<in>set (new_events init (snd (deploy_testnet w mr init))).
        \<not> is_wait (fst e) \<longrightarrow> snd e = 0"
    and mainnet: "fst (deploy_testnet w mr init) = 0 \<longrightarrow>
        (\<forall>e\<in>set (new_events (snd (deploy_testnet w mr init))
                   (snd (deploy_mainnet w mr (snd (deploy_testnet w mr init))))).
           \<not> is_wait (fst e) \<longrightarrow> snd e = 0)"
  shows "job_succeeded (deploy_job w mr) \<longleftrightarrow>
           failed_deployments (snd (deploy_testnet w mr init)) = [] \<and>
           failed_deployments (snd (deploy_mainnet w mr (snd (deploy_testnet w mr init)))) = []"
proof -
  have sub: "\<forall>s\<in>set testnet_services. fst (service_sha w mr s) = 0"
    using lookups by (simp add: testnet_services_def mainnet_services_def)
  have t: "fst (deploy_testnet w mr init) \<noteq> 0 \<longleftrightarrow>
      failed_deployments (snd (deploy_testnet w mr init)) \<noteq> []"
    using deploy_and_verify_status [OF sub _ testnet, of "''nearblocks-testnet''" "''testnet''"
        "fst (deploy_testnet w mr init)"]
    by (simp add: deploy_testnet_def)
  have m: "fst (deploy_mainnet w mr (snd (deploy_testnet w mr init))) \<noteq> 0 \<longleftrightarrow>
      failed_deployments (snd (deploy_mainnet w mr (snd (deploy_testnet w mr init)))) \<noteq> []"
    if "fst (deploy_testnet w mr init) = 0"
  proof -
    from mainnet that
    have guarded: "\<forall>e\<in>set (new_events (snd (deploy_testnet w mr init))
                   (snd (deploy_mainnet w mr (snd (deploy_testnet w mr init))))).
           \<not> is_wait (fst e) \<longrightarrow> snd e = 0"
      by simp
    show ?thesis
      using deploy_and_verify_status [OF lookups _ guarded, of "''nearblocks''" "''mainnet''"
          "fst (deploy_mainnet w mr (snd (deploy_testnet w mr init)))"]
      by (simp add: deploy_mainnet_def)
  qed
  from t m job_succeeded_iff_status [OF preps, of mr] show ?thesis
    by auto
qed

subsection \<open>The scenarios, evaluated\<close>

lemmas script_defs = deploy_testnet_def deploy_mainnet_def deploy_and_verify_def deploy_service_def
  rollback_testnet_def rollback_mainnet_def rollback_def rollback_service_def notify_def
  run_kubectl_def echo_def fresh_shell_def service_sha_def valid_sha_def rollback_sha_def
  blank_def strip_newlines_def deployment_of_def image_of_def updating_line_def skipping_line_def
  attempting_line_def testnet_services_def mainnet_services_def init_def newline_def Let_def

lemmas scenario_defs = scenario_text_def scenario_jq_def calm_def backend_times_out_def
  api_update_fails_def api_undo_fails_def mainnet_api_update_fails_def mainnet_context_fails_def

lemmas job_eval = deploy_job_def deploy_steps_def external_step_def fst_run_steps_Cons
  snd_run_steps_Cons script_defs scenario_defs

lemma scenario_sha:
  "service_sha w scenario_text s = (case jq w scenario_text s of (rc, stdout) \<Rightarrow> (rc, strip_newlines stdout))"
  by (simp add: service_sha_def scenario_text_def blank_def)


lemma api_update_fails_api: "service_sha api_update_fails scenario_text ''api'' = (0, ''sha1'')"
  by (simp add: scenario_sha api_update_fails_def calm_def scenario_jq_def strip_newlines_def newline_def)

lemma api_update_fails_backend: "service_sha api_update_fails scenario_text ''backend'' = (0, ''sha2'')"
  by (simp add: scenario_sha api_update_fails_def calm_def scenario_jq_def strip_newlines_def newline_def)

lemma backend_times_out_sha:
  "service_sha backend_times_out scenario_text s = (fst (scenario_jq scenario_text s),
     strip_newlines (snd (scenario_jq scenario_text s)))"
  by (simp add: scenario_sha backend_times_out_def calm_def case_prod_beta)

lemma api_undo_fails_sha:
  "service_sha api_undo_fails scenario_text s = (fst (scenario_jq scenario_text s),
     strip_newlines (snd (scenario_jq scenario_text s)))"
  by (simp add: scenario_sha api_undo_fails_def calm_def case_prod_beta)

lemma api_update_fails_deploy_testnet:
  "deploy_testnet api_update_fails scenario_text init =
     (1, \<lparr>events = [(Set_context ''nearblocks-testnet'', 0),
                    (Set_image ''testnet-api'' ''api'' ''ghcr.io/nearblocks/api:sha1'', 1)],
          out = [''Updating deployment for testnet-api with image: ghcr.io/nearblocks/api:sha1''],
          failed_deployments = []\<rparr>)"
  by (simp add: script_defs scenario_defs)

lemma backend_times_out_deploy_testnet:
  "deploy_testnet backend_times_out scenario_text init =
     (1, \<lparr>events = [(Set_context ''nearblocks-testnet'', 0),
                    (Set_image ''testnet-api'' ''api'' ''ghcr.io/nearblocks/api:sha1'', 0),
                    (Rollout_status ''testnet-api'' 600, 0),
                    (Set_image ''testnet-backend'' ''backend'' ''ghcr.io/nearblocks/backend:sha2'', 0),
                    (Rollout_status ''testnet-backend'' 600, 1)],
          out = [''Updating deployment for testnet-api with image: ghcr.io/nearblocks/api:sha1'',
                 ''Verifying rollout for testnet-api'',
                 ''Skipping deployment for testnet-app (no updates or invalid SHA)'',
                 ''Updating deployment for testnet-backend with image: ghcr.io/nearblocks/backend:sha2'',
                 ''Verifying rollout for testnet-backend'',
                 ''Rollout failed for testnet-backend'',
                 ''Skipping deployment for testnet-indexer-balance (no updates or invalid SHA)'',
                 ''Skipping deployment for testnet-indexer-base (no updates or invalid SHA)'',
                 ''Skipping deployment for testnet-indexer-events (no updates or invalid SHA)'',
                 ''Skipping deployment for testnet-explorer-selector (no updates or invalid SHA)'',
                 ''Skipping deployment for testnet-aggregates (no updates or invalid SHA)'',
                 ''The following deployments failed:'', ''testnet-backend''],
          failed_deployments = [''testnet-backend'']\<rparr>)"
  by (simp add: script_defs scenario_defs)

lemma backend_times_out_reaches_backend:
  "deploy_loop backend_times_out scenario_text ''testnet'' [''api'', ''app''] init =
     Inr \<lparr>events = [(Set_image ''testnet-api'' ''api'' ''ghcr.io/nearblocks/api:sha1'', 0),
                    (Rollout_status ''testnet-api'' 600, 0)],
          out = [''Updating deployment for testnet-api with image: ghcr.io/nearblocks/api:sha1'',
                 ''Verifying rollout for testnet-api'',
                 ''Skipping deployment for testnet-app (no updates or invalid SHA)''],
          failed_deployments = []\<rparr>"
  by (simp add: script_defs scenario_defs)

lemma calm_deploy_testnet: "fst (deploy_testnet calm scenario_text init) = 0"
  by (simp add: script_defs scenario_defs)

lemma backend_times_out_outcomes:
  "fst (deploy_job backend_times_out scenario_text) =
     [(''Checkout code'', Succeeded),
      (''Download Matrix Result Artifact'', Succeeded),
      (''Set up kubectl'', Succeeded),
      (''Configure kubectl'', Succeeded),
      (''Deploy and verify testnet'', Failed 1),
      (''Rollback failed testnet deployments'', Succeeded),
      (''Deploy and verify mainnet'', Skipped),
      (''Rollback failed mainnet deployments'', Succeeded),
      (''Notify on failure'', Succeeded)]"
  by (simp add: job_eval del: run_steps.simps(2))

lemma backend_times_out_calls:
  "map fst (events (snd (deploy_job backend_times_out scenario_text))) =
     [Set_context ''nearblocks-testnet'',
      Set_image ''testnet-api'' ''api'' ''ghcr.io/nearblocks/api:sha1'',
      Rollout_status ''testnet-api'' 600,
      Set_image ''testnet-backend'' ''backend'' ''ghcr.io/nearblocks/backend:sha2'',
      Rollout_status ''testnet-backend'' 600,
      Set_context ''nearblocks-testnet'',
      Rollout_undo ''testnet-api'',
      Rollout_undo ''testnet-backend'',
      Set_context ''nearblocks'',
      Rollout_undo ''mainnet-api'',
      Rollout_undo ''mainnet-backend'']"
  by (simp add: job_eval del: run_steps.simps(2))

lemma calm_outcomes:
  "fst (deploy_job calm scenario_text) =
     [(''Checkout code'', Succeeded),
      (''Download Matrix Result Artifact'', Succeeded),
      (''Set up kubectl'', Succeeded),
      (''Configure kubectl'', Succeeded),
      (''Deploy and verify testnet'', Succeeded),
      (''Rollback failed testnet deployments'', Skipped),
      (''Deploy and verify mainnet'', Succeeded),
      (''Rollback failed mainnet deployments'', Skipped),
      (''Notify on failure'', Skipped)]"
  by (simp add: job_eval del: run_steps.simps(2))




lemma calm_guarded:
  "(\<forall>s\<in>set mainnet_services. fst (service_sha calm scenario_text s) = 0) \<and>
   (\<forall>e\<in>set (new_events init (snd (deploy_testnet calm scenario_text init))).
        \<not> is_wait (fst e) \<longrightarrow> snd e = 0) \<and>
   (\<forall>e\<in>set (new_events (snd (deploy_testnet calm scenario_text init))
                  (snd (deploy_mainnet calm scenario_text (snd (deploy_testnet calm scenario_text init))))).
          \<not> is_wait (fst e) \<longrightarrow> snd e = 0)"
  by (simp add: script_defs scenario_defs new_events_def)

lemma calm_failed_sets:
  "failed_deployments (snd (deploy_testnet calm scenario_text init)) = [] \<and>
   failed_deployments (snd (deploy_mainnet calm scenario_text
     (snd (deploy_testnet calm scenario_text init)))) = []"
  by (simp add: script_defs scenario_defs)

lemma mainnet_api_update_fails_outcomes:
  "fst (deploy_job mainnet_api_update_fails scenario_text) =
     [(''Checkout code'', Succeeded),
      (''Download Matrix Result Artifact'', Succeeded),
      (''Set up kubectl'', Succeeded),
      (''Configure kubectl'', Succeeded),
      (''Deploy and verify testnet'', Succeeded),
      (''Rollback failed testnet deployments'', Skipped),
      (''Deploy and verify mainnet'', Failed 1),
      (''Rollback failed mainnet deployments'', Succeeded),
      (''Notify on failure'', Succeeded)]"
  by (simp add: job_eval del: run_steps.simps(2))

lemma mainnet_api_update_fails_failed_sets:
  "failed_deployments (snd (deploy_testnet mainnet_api_update_fails scenario_text init)) = [] \<and>
   failed_deployments (snd (deploy_mainnet mainnet_api_update_fails scenario_text
     (snd (deploy_testnet mainnet_api_update_fails scenario_text init)))) = []"
  by (simp add: script_defs scenario_defs)

lemma mainnet_context_fails_outcomes:
  "fst (deploy_job mainnet_context_fails matrix_result) =
     [(''Checkout code'', Succeeded),
      (''Download Matrix Result Artifact'', Succeeded),
      (''Set up kubectl'', Succeeded),
      (''Configure kubectl'', Succeeded),
      (''Deploy and verify testnet'', Succeeded),
      (''Rollback failed testnet deployments'', Skipped),
      (''Deploy and verify mainnet'', Failed 1),
      (''Rollback failed mainnet deployments'', Failed 1),
      (''Notify on failure'', Succeeded)]"
  by (simp add: job_eval matrix_result_def needs_output_def build_outputs_def
        del: run_steps.simps(2))

lemma mainnet_context_fails_failed_sets:
  "failed_deployments (snd (deploy_testnet mainnet_context_fails matrix_result init)) = [] \<and>
   failed_deployments (snd (deploy_mainnet mainnet_context_fails matrix_result
     (snd (deploy_testnet mainnet_context_fails matrix_result init)))) = []"
  by (simp add: script_defs scenario_defs matrix_result_def needs_output_def
        build_outputs_def)

section \<open>The driver: staging, then production\<close>

text \<open>
  C1, as the workflow has it. The step "Deploy and verify mainnet" has no \<^verbatim>\<open>if:\<close>, so it
  runs exactly when every step before it succeeded: the four preparatory steps and the
  deploy step of testnet. The deploy step of testnet succeeded exactly when the deploy step
  of mainnet is not skipped. When the deploy step of testnet failed, the rollback step of
  testnet runs and the deploy step of mainnet is skipped.
\<close>

theorem mainnet_deploy_needs_testnet_success:
  "(outcome_of ''Deploy and verify mainnet'' (deploy_job w mr) \<noteq> Skipped \<longleftrightarrow>
      prep w ''Checkout code'' = 0 \<and> prep w ''Download Matrix Result Artifact'' = 0 \<and>
      prep w ''Set up kubectl'' = 0 \<and> prep w ''Configure kubectl'' = 0 \<and>
      fst (deploy_testnet w mr init) = 0) \<and>
   (outcome_of ''Deploy and verify testnet'' (deploy_job w mr) = Succeeded \<longleftrightarrow>
      outcome_of ''Deploy and verify mainnet'' (deploy_job w mr) \<noteq> Skipped) \<and>
   (is_failed (outcome_of ''Deploy and verify testnet'' (deploy_job w mr)) \<longrightarrow>
      outcome_of ''Rollback failed testnet deployments'' (deploy_job w mr) \<noteq> Skipped \<and>
      outcome_of ''Deploy and verify mainnet'' (deploy_job w mr) = Skipped)"
  by (cases rule: job_cases [where w = w and mr = mr])
     (simp_all add: job_simps del: run_steps.simps(2))

text \<open>
  The rollout of testnet-backend times out: the deploy step of testnet fails, the rollback
  step of testnet runs and succeeds, and the deploy step of mainnet is skipped.
\<close>

theorem mainnet_deploy_runs_regardless_counterexample:
  "outcome_of ''Deploy and verify testnet'' (deploy_job backend_times_out scenario_text) = Failed 1 \<and>
   outcome_of ''Rollback failed testnet deployments'' (deploy_job backend_times_out scenario_text) =
     Succeeded \<and>
   outcome_of ''Deploy and verify mainnet'' (deploy_job backend_times_out scenario_text) = Skipped"
  by (simp add: outcome_of_def backend_times_out_outcomes)

theorem mainnet_deploy_needs_testnet_success_witness:
  "outcome_of ''Deploy and verify mainnet'' (deploy_job calm scenario_text) \<noteq> Skipped \<and>
   outcome_of ''Deploy and verify testnet'' (deploy_job calm scenario_text) = Succeeded"
proof -
  have "prep calm ''Checkout code'' = 0" "prep calm ''Download Matrix Result Artifact'' = 0"
    "prep calm ''Set up kubectl'' = 0" "prep calm ''Configure kubectl'' = 0"
    by (simp_all add: calm_def)
  with calm_deploy_testnet mainnet_deploy_needs_testnet_success [of calm scenario_text]
  show ?thesis by simp
qed

section \<open>The build result that the deploy job reads\<close>

text \<open>
  C2. What a build job writes to services.json is the line \<^verbatim>\<open>service=sha\<close>. The build job
  declares no job output, so \<^verbatim>\<open>needs.build.outputs.matrix-result\<close> expands to the empty
  string. jq then prints nothing for any service, the test of the
  deploy loop fails for every service, and every service of the list is skipped: the loop
  makes no kubectl call and leaves the list of failed deployments as it is. When the
  namespace can be selected the deploy step of either environment ends with status 0 and
  nothing but the skipping lines. The file services.json is no argument of any script of
  the deploy job.
\<close>

theorem build_result_is_empty:
  "set_image_output service sha [] = service @ ''='' @ sha @ [newline] \<and>
   matrix_result = [] \<and>
   service_sha w matrix_result service = (0, []) \<and>
   deploy_loop w matrix_result env services st =
     Inr (st\<lparr>out := out st @ map (skipping_line env) services\<rparr>) \<and>
   (kubectl w (events st) (Set_context namespace) = 0 \<longrightarrow>
      deploy_and_verify w matrix_result namespace env services st =
        (0, st\<lparr>events := events st @ [(Set_context namespace, 0)],
               out := out st @ map (skipping_line env) services,
               failed_deployments := []\<rparr>))"
proof (intro conjI impI)
  show "set_image_output service sha [] = service @ ''='' @ sha @ [newline]"
    by (simp add: set_image_output_def)
  show "matrix_result = []"
    by (simp add: matrix_result_def needs_output_def build_outputs_def)
  show "service_sha w matrix_result service = (0, [])"
    by (simp add: service_sha_blank blank_matrix_result)
  show "deploy_loop w matrix_result env services st =
          Inr (st\<lparr>out := out st @ map (skipping_line env) services\<rparr>)"
    by (simp add: deploy_loop_blank blank_matrix_result)
  assume "kubectl w (events st) (Set_context namespace) = 0"
  then show "deploy_and_verify w matrix_result namespace env services st =
        (0, st\<lparr>events := events st @ [(Set_context namespace, 0)],
               out := out st @ map (skipping_line env) services,
               failed_deployments := []\<rparr>)"
    by (simp add: deploy_and_verify_def run_kubectl_def fresh_shell_def
          deploy_loop_blank blank_matrix_result)
qed

theorem build_result_is_empty_witness:
  "deploy_testnet calm matrix_result init =
     (0, \<lparr>events = [(Set_context ''nearblocks-testnet'', 0)],
          out = map (skipping_line ''testnet'') testnet_services,
          failed_deployments = []\<rparr>)"
  using build_result_is_empty [where service = "''api''" and sha = "''sha1''" and w = calm
      and env = "''testnet''" and services = testnet_services and st = init
      and namespace = "''nearblocks-testnet''"]
  by (auto simp add: deploy_testnet_def calm_def init_def)

section \<open>When a rollback step runs\<close>

text \<open>
  C3, at the run in which the rollout of testnet-backend times out. The deploy step of
  mainnet is skipped, and still the step "Rollback failed mainnet deployments" runs, since
  \<^verbatim>\<open>failure()\<close> holds after any failed step of the job: it undoes mainnet-api and
  mainnet-backend, which this run has not updated.
\<close>

theorem mainnet_rollback_without_mainnet_deploy:
  "fst (deploy_job backend_times_out scenario_text) =
     [(''Checkout code'', Succeeded),
      (''Download Matrix Result Artifact'', Succeeded),
      (''Set up kubectl'', Succeeded),
      (''Configure kubectl'', Succeeded),
      (''Deploy and verify testnet'', Failed 1),
      (''Rollback failed testnet deployments'', Succeeded),
      (''Deploy and verify mainnet'', Skipped),
      (''Rollback failed mainnet deployments'', Succeeded),
      (''Notify on failure'', Succeeded)] \<and>
   map fst (events (snd (deploy_job backend_times_out scenario_text))) =
     [Set_context ''nearblocks-testnet'',
      Set_image ''testnet-api'' ''api'' ''ghcr.io/nearblocks/api:sha1'',
      Rollout_status ''testnet-api'' 600,
      Set_image ''testnet-backend'' ''backend'' ''ghcr.io/nearblocks/backend:sha2'',
      Rollout_status ''testnet-backend'' 600,
      Set_context ''nearblocks-testnet'',
      Rollout_undo ''testnet-api'',
      Rollout_undo ''testnet-backend'',
      Set_context ''nearblocks'',
      Rollout_undo ''mainnet-api'',
      Rollout_undo ''mainnet-backend'']"
  by (simp add: backend_times_out_outcomes backend_times_out_calls)

text \<open>
  In general a rollback step runs exactly when some step before it has failed, whichever
  step that was.
\<close>

lemma rollback_steps_run_after_any_failure:
  "(outcome_of ''Rollback failed testnet deployments'' (deploy_job w mr) \<noteq> Skipped \<longleftrightarrow>
      \<not> (prep w ''Checkout code'' = 0 \<and> prep w ''Download Matrix Result Artifact'' = 0 \<and>
         prep w ''Set up kubectl'' = 0 \<and> prep w ''Configure kubectl'' = 0 \<and>
         fst (deploy_testnet w mr init) = 0)) \<and>
   (outcome_of ''Rollback failed mainnet deployments'' (deploy_job w mr) \<noteq> Skipped \<longleftrightarrow>
      \<not> (prep w ''Checkout code'' = 0 \<and> prep w ''Download Matrix Result Artifact'' = 0 \<and>
         prep w ''Set up kubectl'' = 0 \<and> prep w ''Configure kubectl'' = 0 \<and>
         fst (deploy_testnet w mr init) = 0 \<and>
         fst (deploy_mainnet w mr (snd (deploy_testnet w mr init))) = 0))"
  by (cases rule: job_cases [where w = w and mr = mr])
     (simp_all add: job_simps del: run_steps.simps(2))

section \<open>The test of the rollback loop\<close>

text \<open>
  C4, at the build result that the workflow reads (the empty string) and a cluster on
  which every call succeeds. The deploy step of testnet skips every service: its only call
  selects the namespace. The rollback step of testnet, which does not test the image
  identifier for being empty, undoes all eight deployments.
\<close>

theorem rollback_undoes_skipped_services:
  "map fst (events (snd (deploy_testnet calm matrix_result init))) =
     [Set_context ''nearblocks-testnet''] \<and>
   map fst (events (snd (rollback_testnet calm matrix_result init))) =
     [Set_context ''nearblocks-testnet'',
      Rollout_undo ''testnet-api'',
      Rollout_undo ''testnet-app'',
      Rollout_undo ''testnet-backend'',
      Rollout_undo ''testnet-indexer-balance'',
      Rollout_undo ''testnet-indexer-base'',
      Rollout_undo ''testnet-indexer-events'',
      Rollout_undo ''testnet-explorer-selector'',
      Rollout_undo ''testnet-aggregates'']"
  by (simp add: script_defs scenario_defs matrix_result_def needs_output_def build_outputs_def)

text \<open>
  In general a service whose image identifier is empty is skipped by the deploy loop and
  undone by the rollback loop.
\<close>

lemma empty_sha_is_skipped_and_undone:
  assumes "service_sha w mr s = (0, [])"
  shows "deploy_service w mr env s st = Inr (echo (skipping_line env s) st) \<and>
         events (final (rollback_service w mr env s st)) =
           events st @ [(Rollout_undo (deployment_of env s),
                         kubectl w (events st) (Rollout_undo (deployment_of env s)))]"
  using assms
  by (simp add: deploy_service_def valid_sha_def rollback_service_def rollback_sha_def
        run_kubectl_def echo_def Let_def)

section \<open>A failed undo ends the rollback loop\<close>

text \<open>
  C5, as the workflow has it. The undo is not guarded. When the rollback loop has reached
  a service that passes its test and \<^verbatim>\<open>kubectl rollout undo\<close> fails for it, the script
  ends there with the status of kubectl, and no undo is attempted for the services after
  it. Up to that service, and in a rollback loop that runs to its end, the calls are one
  successful undo for each service that passes the test, in the order of the list: no call
  is made twice for a list without repetition.
\<close>

theorem rollback_ends_at_first_failed_undo:
  assumes "rollback_loop w mr env earlier st = Inr st1"
    and "service_sha w mr s = (0, sha)" and "rollback_sha sha"
    and "kubectl w (events st1) (Rollout_undo (deployment_of env s)) = rc" and "rc \<noteq> 0"
  shows "rollback_loop w mr env (earlier @ s # later) st =
           Inl (rc, (echo (attempting_line (deployment_of env s)) st1)
                     \<lparr>events := events st1 @ [(Rollout_undo (deployment_of env s), rc)]\<rparr>) \<and>
         new_events st st1 = map (\<lambda>c. (c, 0)) (rollback_calls w mr env earlier) \<and>
         (distinct earlier \<longrightarrow> distinct (rollback_calls w mr env earlier)) \<and>
         (rollback_loop w mr env services st0 = Inr st2 \<longrightarrow>
            new_events st0 st2 = map (\<lambda>c. (c, 0)) (rollback_calls w mr env services))"
proof (intro conjI impI)
  show "rollback_loop w mr env (earlier @ s # later) st =
           Inl (rc, (echo (attempting_line (deployment_of env s)) st1)
                     \<lparr>events := events st1 @ [(Rollout_undo (deployment_of env s), rc)]\<rparr>)"
    using assms by (simp add: rollback_loop_append rollback_service_undo_fails)
  show "new_events st st1 = map (\<lambda>c. (c, 0)) (rollback_calls w mr env earlier)"
    using rollback_loop_Inr [OF assms(1)] by simp
  show "distinct (rollback_calls w mr env earlier)" if "distinct earlier"
    using that by (simp add: rollback_calls_def distinct_map inj_on_def deployment_of_inj)
  show "new_events st0 st2 = map (\<lambda>c. (c, 0)) (rollback_calls w mr env services)"
    if "rollback_loop w mr env services st0 = Inr st2"
    using rollback_loop_Inr [OF that] by simp
qed

text \<open>
  The undo of testnet-api fails: the rollback step of testnet ends with status 1 after
  that call, and testnet-backend, which passes the test, is not undone.
\<close>

theorem rollback_is_not_best_effort_counterexample:
  "service_sha api_undo_fails scenario_text ''backend'' = (0, ''sha2'') \<and>
   rollback_sha ''sha2'' \<and>
   rollback_testnet api_undo_fails scenario_text init =
     (1, \<lparr>events = [(Set_context ''nearblocks-testnet'', 0), (Rollout_undo ''testnet-api'', 1)],
          out = [''Attempting rollback for testnet-api''],
          failed_deployments = []\<rparr>)"
  by (simp add: script_defs scenario_defs)

theorem rollback_ends_at_first_failed_undo_witness:
  "rollback_loop api_undo_fails scenario_text ''testnet'' testnet_services init =
     Inl (1, \<lparr>events = [(Rollout_undo ''testnet-api'', 1)],
              out = [''Attempting rollback for testnet-api''],
              failed_deployments = []\<rparr>)"
proof -
  have start: "rollback_loop api_undo_fails scenario_text ''testnet'' [] init = Inr init"
    by simp
  have sha: "service_sha api_undo_fails scenario_text ''api'' = (0, ''sha1'')"
    by (simp add: api_undo_fails_sha scenario_jq_def strip_newlines_def newline_def)
  have eligible: "rollback_sha ''sha1''"
    by (simp add: rollback_sha_def)
  have fails: "kubectl api_undo_fails (events init) (Rollout_undo (deployment_of ''testnet'' ''api'')) = 1"
    by (simp add: api_undo_fails_def calm_def deployment_of_def)
  have one: "(1::nat) \<noteq> 0"
    by simp
  from rollback_ends_at_first_failed_undo [OF start sha eligible fails one,
      where later = "[''app'', ''backend'', ''indexer-balance'', ''indexer-base'', ''indexer-events'',
            ''explorer-selector'', ''aggregates'']"]
  show ?thesis
    by (simp add: testnet_services_def deployment_of_def attempting_line_def echo_def init_def)
qed

section \<open>Timeouts are isolated\<close>

text \<open>
  C6, as the workflow has it. Take a deploy step in which every lookup of an image
  identifier succeeds and no kubectl call other than a wait fails. Then the step goes
  through the whole list: after selecting the namespace it makes one update and one wait
  for each service with a valid image identifier, in the order of the list; the list of
  failed deployments holds exactly the deployments whose wait failed, in that order; and
  the step fails if and only if that list is not empty.
\<close>

theorem timeouts_are_isolated:
  assumes lookups: "\<forall>s\<in>set services. fst (service_sha w mr s) = 0"
    and run: "deploy_and_verify w mr namespace env services st = (rc, st')"
    and others: "\<forall>e\<in>set (new_events st st'). \<not> is_wait (fst e) \<longrightarrow> snd e = 0"
  shows "map fst (new_events st st') = Set_context namespace # deploy_calls w mr env services \<and>
         failed_deployments st' = timed_out (new_events st st') \<and>
         (rc \<noteq> 0 \<longleftrightarrow> failed_deployments st' \<noteq> [])"
proof -
  define rc0 where "rc0 = kubectl w (events st) (Set_context namespace)"
  define st1 where "st1 = st\<lparr>events := events st @ [(Set_context namespace, rc0)],
                             failed_deployments := []\<rparr>"
  have ctx: "run_kubectl w (Set_context namespace) (fresh_shell st) = (rc0, st1)"
    by (simp add: run_kubectl_def fresh_shell_def rc0_def st1_def Let_def)
  have rc0: "rc0 = 0"
  proof (rule ccontr)
    assume "rc0 \<noteq> 0"
    with run ctx have "st' = st1" by (simp add: deploy_and_verify_def)
    then have "new_events st st' = [(Set_context namespace, rc0)]"
      by (simp add: st1_def new_events_def)
    with others \<open>rc0 \<noteq> 0\<close> show False by simp
  qed
  show ?thesis
  proof (cases "deploy_loop w mr env services (st1\<lparr>failed_deployments := []\<rparr>)")
    case (Inl e)
    with run ctx rc0 have e: "e = (rc, st')"
      by (simp add: deploy_and_verify_def)
    from deploy_loop_Inl [OF Inl [unfolded e]] lookups
    obtain evs c where stop: "events st' = events st1 @ evs @ [(c, rc)]" "\<not> is_wait c" "rc \<noteq> 0"
      by auto
    then have "new_events st st' = (Set_context namespace, rc0) # evs @ [(c, rc)]"
      by (simp add: st1_def new_events_def)
    with others stop show ?thesis by simp
  next
    case (Inr st2)
    from deploy_loop_Inr [OF Inr]
    obtain evs where loop: "events st2 = events st1 @ evs"
      "map fst evs = deploy_calls w mr env services" "failed_deployments st2 = timed_out evs"
      by auto
    from run ctx rc0 Inr have fin: "events st' = events st2"
      "failed_deployments st' = failed_deployments st2"
      "rc \<noteq> 0 \<longleftrightarrow> failed_deployments st2 \<noteq> []"
      by (auto simp add: deploy_and_verify_def split: if_splits)
    have "new_events st st' = (Set_context namespace, rc0) # evs"
      using fin(1) loop(1) by (simp add: st1_def new_events_def)
    with loop fin show ?thesis by simp
  qed
qed

text \<open>
  The update of testnet-api fails: no wait times out, the deploy step of testnet fails
  with an empty list of failed deployments, and testnet-backend, whose image identifier is
  valid, is neither updated nor waited for.
\<close>

theorem timeouts_are_isolated_counterexample:
  "fst (deploy_testnet api_update_fails scenario_text init) = 1 \<and>
   failed_deployments (snd (deploy_testnet api_update_fails scenario_text init)) = [] \<and>
   service_sha api_update_fails scenario_text ''backend'' = (0, ''sha2'') \<and>
   valid_sha ''backend'' ''sha2'' \<and>
   map fst (events (snd (deploy_testnet api_update_fails scenario_text init))) =
     [Set_context ''nearblocks-testnet'',
      Set_image ''testnet-api'' ''api'' ''ghcr.io/nearblocks/api:sha1'']"
  by (simp add: api_update_fails_deploy_testnet api_update_fails_backend valid_sha_def)

theorem timeouts_are_isolated_witness:
  "map fst (new_events init (snd (deploy_testnet backend_times_out scenario_text init))) =
     [Set_context ''nearblocks-testnet'',
      Set_image ''testnet-api'' ''api'' ''ghcr.io/nearblocks/api:sha1'',
      Rollout_status ''testnet-api'' 600,
      Set_image ''testnet-backend'' ''backend'' ''ghcr.io/nearblocks/backend:sha2'',
      Rollout_status ''testnet-backend'' 600] \<and>
   failed_deployments (snd (deploy_testnet backend_times_out scenario_text init)) =
     [''testnet-backend''] \<and>
   fst (deploy_testnet backend_times_out scenario_text init) \<noteq> 0"
proof -
  have lookups: "\<forall>s\<in>set testnet_services. fst (service_sha backend_times_out scenario_text s) = 0"
    by (simp add: backend_times_out_sha scenario_jq_def)
  have run: "deploy_and_verify backend_times_out scenario_text ''nearblocks-testnet'' ''testnet''
      testnet_services init =
      (fst (deploy_testnet backend_times_out scenario_text init),
       snd (deploy_testnet backend_times_out scenario_text init))"
    by (simp add: deploy_testnet_def)
  have others: "\<forall>e\<in>set (new_events init (snd (deploy_testnet backend_times_out scenario_text init))).
      \<not> is_wait (fst e) \<longrightarrow> snd e = 0"
    by (simp add: backend_times_out_deploy_testnet new_events_def)
  from timeouts_are_isolated [OF lookups run others] show ?thesis
    by (simp add: backend_times_out_deploy_testnet new_events_def)
qed

section \<open>One update, then one wait\<close>

text \<open>
  C7, as the workflow has it. Take a list of services without repetition and a service of
  it with a valid image identifier, such that the deploy loop reaches the service (no
  lookup and no update has ended the script before) and the update of the service itself
  succeeds. Then the calls of the loop that concern the deployment of the service are
  exactly one update followed by one wait with the timeout of 600 seconds, whatever the
  waits report and whatever happens to the services after it.
\<close>

theorem one_update_then_one_wait:
  assumes "distinct (earlier @ s # later)"
    and reach: "deploy_loop w mr env earlier st = Inr st1"
    and sha: "service_sha w mr s = (0, sha)" and valid: "valid_sha s sha"
    and update: "kubectl w (events st1) (Set_image (deployment_of env s) s (image_of s sha)) = 0"
  shows "filter (about (deployment_of env s))
           (map fst (new_events st (final (deploy_loop w mr env (earlier @ s # later) st)))) =
         [Set_image (deployment_of env s) s (image_of s sha),
          Rollout_status (deployment_of env s) 600]"
proof -
  from assms(1) have out: "s \<notin> set earlier" "s \<notin> set later"
    by simp_all
  from deploy_loop_touches [OF refl, of w mr env earlier st] reach
  obtain evs1 where 1: "events st1 = events st @ evs1"
    "\<forall>e\<in>set evs1. \<exists>s'\<in>set earlier. fst (service_sha w mr s') = 0 \<and>
        valid_sha s' (snd (service_sha w mr s')) \<and> about (deployment_of env s') (fst e)"
    by auto
  from deploy_service_update_succeeds [OF sha valid update]
  obtain st2 rc2 where 2: "deploy_service w mr env s st1 = Inr st2"
    "events st2 = events st1 @ [(Set_image (deployment_of env s) s (image_of s sha), 0),
                                (Rollout_status (deployment_of env s) 600, rc2)]"
    by blast
  have whole: "deploy_loop w mr env (earlier @ s # later) st = deploy_loop w mr env later st2"
    using reach 2(1) by (simp add: deploy_loop_append)
  from deploy_loop_touches [OF refl, of w mr env later st2]
  obtain evs3 where 3: "events (final (deploy_loop w mr env later st2)) = events st2 @ evs3"
    "\<forall>e\<in>set evs3. \<exists>s'\<in>set later. fst (service_sha w mr s') = 0 \<and>
        valid_sha s' (snd (service_sha w mr s')) \<and> about (deployment_of env s') (fst e)"
    by auto
  have none1: "filter (about (deployment_of env s)) (map fst evs1) = []"
    using 1(2) out(1) by (intro untouched [of evs1 earlier w mr env s]) simp_all
  have none3: "filter (about (deployment_of env s)) (map fst evs3) = []"
    using 3(2) out(2) by (intro untouched [of evs3 later w mr env s]) simp_all
  have "new_events st (final (deploy_loop w mr env (earlier @ s # later) st)) =
          evs1 @ [(Set_image (deployment_of env s) s (image_of s sha), 0),
                  (Rollout_status (deployment_of env s) 600, rc2)] @ evs3"
    using whole 1(1) 2(2) 3(1) by (simp add: new_events_def)
  with none1 none3 show ?thesis by simp
qed

text \<open>
  The update of testnet-api fails: testnet-api is updated and not waited for, and
  testnet-backend gets no call at all, though both image identifiers are valid.
\<close>

theorem one_update_then_one_wait_counterexample:
  "service_sha api_update_fails scenario_text ''api'' = (0, ''sha1'') \<and>
   valid_sha ''api'' ''sha1'' \<and>
   filter (about ''testnet-api'')
     (map fst (events (snd (deploy_testnet api_update_fails scenario_text init)))) =
     [Set_image ''testnet-api'' ''api'' ''ghcr.io/nearblocks/api:sha1''] \<and>
   service_sha api_update_fails scenario_text ''backend'' = (0, ''sha2'') \<and>
   valid_sha ''backend'' ''sha2'' \<and>
   filter (about ''testnet-backend'')
     (map fst (events (snd (deploy_testnet api_update_fails scenario_text init)))) = []"
  by (simp add: api_update_fails_deploy_testnet api_update_fails_backend api_update_fails_api
        valid_sha_def)

theorem one_update_then_one_wait_witness:
  "filter (about ''testnet-backend'')
     (map fst (new_events init
        (final (deploy_loop backend_times_out scenario_text ''testnet'' testnet_services init)))) =
   [Set_image ''testnet-backend'' ''backend'' ''ghcr.io/nearblocks/backend:sha2'',
    Rollout_status ''testnet-backend'' 600]"
proof -
  have d: "distinct ([''api'', ''app''] @ ''backend'' # [''indexer-balance'', ''indexer-base'',
      ''indexer-events'', ''explorer-selector'', ''aggregates''])"
    by simp
  have sha: "service_sha backend_times_out scenario_text ''backend'' = (0, ''sha2'')"
    by (simp add: backend_times_out_sha scenario_jq_def strip_newlines_def newline_def)
  have valid: "valid_sha ''backend'' ''sha2''"
    by (simp add: valid_sha_def)
  have update: "kubectl backend_times_out
      (events \<lparr>events = [(Set_image ''testnet-api'' ''api'' ''ghcr.io/nearblocks/api:sha1'', 0),
                    (Rollout_status ''testnet-api'' 600, 0)],
          out = [''Updating deployment for testnet-api with image: ghcr.io/nearblocks/api:sha1'',
                 ''Verifying rollout for testnet-api'',
                 ''Skipping deployment for testnet-app (no updates or invalid SHA)''],
          failed_deployments = []\<rparr>)
      (Set_image (deployment_of ''testnet'' ''backend'') ''backend'' (image_of ''backend'' ''sha2'')) = 0"
    by (simp add: backend_times_out_def calm_def)
  from one_update_then_one_wait [OF d backend_times_out_reaches_backend sha valid update]
  show ?thesis
    by (simp add: testnet_services_def deployment_of_def image_of_def)
qed

section \<open>Skipped services\<close>



section \<open>The conclusion of the job\<close>

text \<open>
  C9, as the workflow has it. The job concludes with success if and only if the deploy
  steps of testnet and of mainnet both ran and ended with status 0. When either of them
  failed the job has failed, whatever the rollback steps did. A deploy step that succeeded
  has an empty list of failed deployments. The converse needs the unguarded commands to
  succeed: when the preparatory steps succeed, every lookup of an image identifier succeeds
  and no kubectl call other than a wait fails in the deploy steps, the job concludes with
  success if and only if the list of failed deployments is empty in both deploy steps.
\<close>

theorem job_succeeds_iff_both_deploys_succeed:
  "(job_succeeded (deploy_job w mr) \<longleftrightarrow>
      outcome_of ''Deploy and verify testnet'' (deploy_job w mr) = Succeeded \<and>
      outcome_of ''Deploy and verify mainnet'' (deploy_job w mr) = Succeeded) \<and>
   (is_failed (outcome_of ''Deploy and verify testnet'' (deploy_job w mr)) \<or>
    is_failed (outcome_of ''Deploy and verify mainnet'' (deploy_job w mr)) \<longrightarrow>
      \<not> job_succeeded (deploy_job w mr)) \<and>
   (outcome_of ''Deploy and verify testnet'' (deploy_job w mr) = Succeeded \<longrightarrow>
      fst (deploy_testnet w mr init) = 0 \<and>
      failed_deployments (snd (deploy_testnet w mr init)) = []) \<and>
   (outcome_of ''Deploy and verify mainnet'' (deploy_job w mr) = Succeeded \<longrightarrow>
      fst (deploy_mainnet w mr (snd (deploy_testnet w mr init))) = 0 \<and>
      failed_deployments (snd (deploy_mainnet w mr (snd (deploy_testnet w mr init)))) = []) \<and>
   (prep w ''Checkout code'' = 0 \<and> prep w ''Download Matrix Result Artifact'' = 0 \<and>
    prep w ''Set up kubectl'' = 0 \<and> prep w ''Configure kubectl'' = 0 \<and>
    (\<forall>s\<in>set mainnet_services. fst (service_sha w mr s) = 0) \<and>
    (\<forall>e\<in>set (new_events init (snd (deploy_testnet w mr init))).
        \<not> is_wait (fst e) \<longrightarrow> snd e = 0) \<and>
    (fst (deploy_testnet w mr init) = 0 \<longrightarrow>
       (\<forall>e\<in>set (new_events (snd (deploy_testnet w mr init))
                  (snd (deploy_mainnet w mr (snd (deploy_testnet w mr init))))).
          \<not> is_wait (fst e) \<longrightarrow> snd e = 0)) \<longrightarrow>
      (job_succeeded (deploy_job w mr) \<longleftrightarrow>
         failed_deployments (snd (deploy_testnet w mr init)) = [] \<and>
         failed_deployments (snd (deploy_mainnet w mr (snd (deploy_testnet w mr init)))) = []))"
proof -
  have t: "fst (deploy_testnet w mr init) = 0 \<Longrightarrow>
      failed_deployments (snd (deploy_testnet w mr init)) = []"
    unfolding deploy_testnet_def by (rule deploy_and_verify_success)
  have m: "fst (deploy_mainnet w mr (snd (deploy_testnet w mr init))) = 0 \<Longrightarrow>
      failed_deployments (snd (deploy_mainnet w mr (snd (deploy_testnet w mr init)))) = []"
    unfolding deploy_mainnet_def by (rule deploy_and_verify_success)
  have outcomes: "(job_succeeded (deploy_job w mr) \<longleftrightarrow>
      outcome_of ''Deploy and verify testnet'' (deploy_job w mr) = Succeeded \<and>
      outcome_of ''Deploy and verify mainnet'' (deploy_job w mr) = Succeeded) \<and>
   (is_failed (outcome_of ''Deploy and verify testnet'' (deploy_job w mr)) \<or>
    is_failed (outcome_of ''Deploy and verify mainnet'' (deploy_job w mr)) \<longrightarrow>
      \<not> job_succeeded (deploy_job w mr)) \<and>
   (outcome_of ''Deploy and verify testnet'' (deploy_job w mr) = Succeeded \<longrightarrow>
      fst (deploy_testnet w mr init) = 0 \<and>
      failed_deployments (snd (deploy_testnet w mr init)) = []) \<and>
   (outcome_of ''Deploy and verify mainnet'' (deploy_job w mr) = Succeeded \<longrightarrow>
      fst (deploy_mainnet w mr (snd (deploy_testnet w mr init))) = 0 \<and>
      failed_deployments (snd (deploy_mainnet w mr (snd (deploy_testnet w mr init)))) = [])"
    by (cases rule: job_cases [where w = w and mr = mr])
       (simp_all add: job_simps t m del: run_steps.simps(2))
  have guarded: "job_succeeded (deploy_job w mr) \<longleftrightarrow>
         failed_deployments (snd (deploy_testnet w mr init)) = [] \<and>
         failed_deployments (snd (deploy_mainnet w mr (snd (deploy_testnet w mr init)))) = []"
    if "prep w ''Checkout code'' = 0 \<and> prep w ''Download Matrix Result Artifact'' = 0 \<and>
    prep w ''Set up kubectl'' = 0 \<and> prep w ''Configure kubectl'' = 0 \<and>
    (\<forall>s\<in>set mainnet_services. fst (service_sha w mr s) = 0) \<and>
    (\<forall>e\<in>set (new_events init (snd (deploy_testnet w mr init))).
        \<not> is_wait (fst e) \<longrightarrow> snd e = 0) \<and>
    (fst (deploy_testnet w mr init) = 0 \<longrightarrow>
       (\<forall>e\<in>set (new_events (snd (deploy_testnet w mr init))
                  (snd (deploy_mainnet w mr (snd (deploy_testnet w mr init))))).
          \<not> is_wait (fst e) \<longrightarrow> snd e = 0))"
    using that by (intro guarded_job_succeeds_iff_failed_sets_empty) blast+
  from outcomes guarded show ?thesis
    by blast
qed

text \<open>
  The update of mainnet-api fails: both deploy steps leave an empty list of failed
  deployments, the deploy step of mainnet ends with status 1 and the job fails. The same
  happens at the build result that the workflow reads when the namespace of mainnet cannot
  be selected.
\<close>

theorem empty_failed_sets_do_not_suffice_counterexample:
  "failed_deployments (snd (deploy_testnet mainnet_api_update_fails scenario_text init)) = [] \<and>
   failed_deployments (snd (deploy_mainnet mainnet_api_update_fails scenario_text
     (snd (deploy_testnet mainnet_api_update_fails scenario_text init)))) = [] \<and>
   outcome_of ''Deploy and verify mainnet'' (deploy_job mainnet_api_update_fails scenario_text) =
     Failed 1 \<and>
   \<not> job_succeeded (deploy_job mainnet_api_update_fails scenario_text) \<and>
   failed_deployments (snd (deploy_testnet mainnet_context_fails matrix_result init)) = [] \<and>
   failed_deployments (snd (deploy_mainnet mainnet_context_fails matrix_result
     (snd (deploy_testnet mainnet_context_fails matrix_result init)))) = [] \<and>
   outcome_of ''Deploy and verify mainnet'' (deploy_job mainnet_context_fails matrix_result) =
     Failed 1 \<and>
   \<not> job_succeeded (deploy_job mainnet_context_fails matrix_result)"
  by (simp add: mainnet_api_update_fails_failed_sets mainnet_context_fails_failed_sets
        job_succeeded_def outcome_of_def mainnet_api_update_fails_outcomes
        mainnet_context_fails_outcomes)

theorem job_succeeds_iff_both_deploys_succeed_witness:
  "job_succeeded (deploy_job calm scenario_text) \<and>
   failed_deployments (snd (deploy_testnet calm scenario_text init)) = [] \<and>
   failed_deployments (snd (deploy_mainnet calm scenario_text
     (snd (deploy_testnet calm scenario_text init)))) = [] \<and>
   \<not> job_succeeded (deploy_job backend_times_out scenario_text) \<and>
   outcome_of ''Rollback failed testnet deployments'' (deploy_job backend_times_out scenario_text) =
     Succeeded"
proof -
  have preps: "prep calm ''Checkout code'' = 0" "prep calm ''Download Matrix Result Artifact'' = 0"
    "prep calm ''Set up kubectl'' = 0" "prep calm ''Configure kubectl'' = 0"
    by (simp_all add: calm_def)
  have 1: "job_succeeded (deploy_job calm scenario_text)"
    using job_succeeds_iff_both_deploys_succeed [of calm scenario_text] preps calm_guarded
      calm_failed_sets
    by blast
  have failed: "is_failed (outcome_of ''Deploy and verify testnet''
      (deploy_job backend_times_out scenario_text))"
    by (simp add: outcome_of_def backend_times_out_outcomes)
  have 2: "\<not> job_succeeded (deploy_job backend_times_out scenario_text)"
    using job_succeeds_iff_both_deploys_succeed [of backend_times_out scenario_text] failed
    by blast
  have 3: "outcome_of ''Rollback failed testnet deployments''
      (deploy_job backend_times_out scenario_text) = Succeeded"
    by (simp add: outcome_of_def backend_times_out_outcomes)
  from 1 2 3 calm_failed_sets
  show ?thesis by simp
qed

section \<open>A failed update ends the deploy loop\<close>

text \<open>
  C10. Only the wait is guarded in the deploy loop. When the loop has reached a service
  with a valid image identifier and \<^verbatim>\<open>kubectl set image\<close> fails for it, the script ends
  there with the status of kubectl: the state is the one reached before that service plus
  the updating line and the failed call. The services after it are neither updated nor
  waited for, and nothing is added to the list of failed deployments.
\<close>

theorem update_failure_ends_deploy_loop:
  assumes "deploy_loop w mr env earlier st = Inr st1"
    and "service_sha w mr s = (0, sha)" and "valid_sha s sha"
    and "kubectl w (events st1) (Set_image (deployment_of env s) s (image_of s sha)) = rc"
    and "rc \<noteq> 0"
  shows "deploy_loop w mr env (earlier @ s # later) st =
           Inl (rc, (echo (updating_line (deployment_of env s) (image_of s sha)) st1)
                     \<lparr>events := events st1 @ [(Set_image (deployment_of env s) s (image_of s sha), rc)]\<rparr>)"
  using assms by (simp add: deploy_loop_append deploy_service_update_fails)

theorem update_failure_ends_deploy_loop_witness:
  "deploy_loop api_update_fails scenario_text ''testnet'' testnet_services init =
     Inl (1, \<lparr>events = [(Set_image ''testnet-api'' ''api'' ''ghcr.io/nearblocks/api:sha1'', 1)],
              out = [''Updating deployment for testnet-api with image: ghcr.io/nearblocks/api:sha1''],
              failed_deployments = []\<rparr>)"
proof -
  have valid: "valid_sha ''api'' ''sha1''"
    by (simp add: valid_sha_def)
  have start: "deploy_loop api_update_fails scenario_text ''testnet'' [] init = Inr init"
    by simp
  have fails: "kubectl api_update_fails (events init)
      (Set_image (deployment_of ''testnet'' ''api'') ''api'' (image_of ''api'' ''sha1'')) = 1"
    by (simp add: api_update_fails_def calm_def deployment_of_def image_of_def)
  show ?thesis
    using update_failure_ends_deploy_loop [OF start api_update_fails_api valid fails,
        of "[''app'', ''backend'', ''indexer-balance'', ''indexer-base'', ''indexer-events'',
            ''explorer-selector'', ''aggregates'']"]
    by (simp add: testnet_services_def deployment_of_def image_of_def updating_line_def echo_def
          init_def)
qed

end
